theory Spec2Isabelle
  imports Complex_Main "HOL-Library.Sublist"
begin

section \<open>Python values and exceptions\<close>

text \<open>
  The availability pipeline of golfstar-booker works on the values that
  \<^verbatim>\<open>response.json()\<close> returns: \<^verbatim>\<open>None\<close>, booleans, integers, floats, strings, lists
  and dictionaries. A dictionary is kept as the list of its items; lookup takes the first
  item with the key. A float is modelled by its exact rational value (NaN and the
  infinities, which standard JSON cannot express, are left out). A Python \<^verbatim>\<open>str\<close> is a
  \<^typ>\<open>string\<close> whose characters are read as the code points 0..255 (Latin-1), which
  is enough to write the vendor's competition marker.
\<close>

datatype json =
    JNull
  | JBool bool
  | JInt int
  | JFloat rat
  | JStr string
  | JList "json list"
  | JObj "(string \<times> json) list"

text \<open>Every exception the modelled code can raise is a value.\<close>

datatype error =
    AttributeError
  | TypeError
  | ValidationError
  | HTTPError
  | HTTPStatusError nat
  | JSONDecodeError
  | BadParameter

text \<open>Sequencing of two steps of which the first may raise.\<close>

definition bindE :: "error + 'a \<Rightarrow> ('a \<Rightarrow> error + 'b) \<Rightarrow> error + 'b" where
  "bindE r f = (case r of Inl e \<Rightarrow> Inl e | Inr x \<Rightarrow> f x)"

text \<open>\<^verbatim>\<open>d.get(key, default)\<close>: only a dictionary has the method.\<close>

fun py_get :: "json \<Rightarrow> string \<Rightarrow> json \<Rightarrow> error + json" where
  "py_get (JObj kvs) k dflt = Inr (case map_of kvs k of Some v \<Rightarrow> v | None \<Rightarrow> dflt)"
| "py_get _ k dflt = Inl AttributeError"

text \<open>Truth value of a Python object, as \<^verbatim>\<open>if not x\<close> tests it.\<close>

fun truthy :: "json \<Rightarrow> bool" where
  "truthy JNull = False"
| "truthy (JBool b) = b"
| "truthy (JInt n) = (n \<noteq> 0)"
| "truthy (JFloat r) = (r \<noteq> 0)"
| "truthy (JStr s) = (s \<noteq> [])"
| "truthy (JList xs) = (xs \<noteq> [])"
| "truthy (JObj kvs) = (kvs \<noteq> [])"

text \<open>
  \<^verbatim>\<open>str.lower()\<close> on Latin-1 code points: A..Z and the accented capitals 0xC0..0xDE
  (the multiplication sign 0xD7 apart) move up by 32, everything else stays.
\<close>

definition lower_char :: "char \<Rightarrow> char" where
  "lower_char c =
     (let n = (of_char c :: nat)
      in if (65 \<le> n \<and> n \<le> 90) \<or> (192 \<le> n \<and> n \<le> 222 \<and> n \<noteq> 215)
         then char_of (n + 32) else c)"

definition lower :: "string \<Rightarrow> string" where
  "lower s = map lower_char s"

text \<open>\<^verbatim>\<open>x.lower()\<close> on an arbitrary value: only a string has the method.\<close>

fun py_lower :: "json \<Rightarrow> error + string" where
  "py_lower (JStr s) = Inr (lower s)"
| "py_lower _ = Inl AttributeError"

text \<open>\<^verbatim>\<open>needle in haystack\<close> on strings: a contiguous occurrence.\<close>

fun str_contains :: "string \<Rightarrow> string \<Rightarrow> bool" where
  "str_contains needle [] = (needle = [])"
| "str_contains needle (c # cs) = (prefix needle (c # cs) \<or> str_contains needle cs)"

text \<open>The vendor's word for competition, lower case; its second letter is a with diaeresis, the code point 0xE4.\<close>

definition tavling :: string where
  "tavling = [CHR ''t'', CHR 0xE4, CHR ''v'', CHR ''l'', CHR ''i'', CHR ''n'', CHR ''g'']"

section \<open>Competition filter (api/client.py, is\_competition\_time)\<close>

definition is_competition_time :: "json \<Rightarrow> error + bool" where
  "is_competition_time tee_time_data =
     bindE (py_get tee_time_data ''category'' (JObj [])) (\<lambda>category.
       if \<not> truthy category then Inr False
       else
         bindE (py_get category ''description'' (JStr [])) (\<lambda>d.
         bindE (py_lower d) (\<lambda>description.
         bindE (py_get category ''custom_name'' (JStr [])) (\<lambda>c.
         bindE (py_lower c) (\<lambda>custom_name.
           Inr (str_contains tavling description \<or> str_contains tavling custom_name))))))"

section \<open>Domain model (models/teetime.py, models/course.py)\<close>

text \<open>
  A \<^verbatim>\<open>datetime\<close> is either naive (a wall-clock reading, in microseconds) or aware; an
  aware one is represented by its UTC instant, which is all that \<^verbatim>\<open>==\<close>, \<^verbatim>\<open><\<close> and
  sorting observe of it. A \<^verbatim>\<open>Decimal\<close> is its rational value.
  Record fields carry a prefix, since the classes share the names \<^verbatim>\<open>id\<close>, \<^verbatim>\<open>uuid\<close> and
  \<^verbatim>\<open>name\<close>: \<open>m_\<close> Money, \<open>tc_\<close> TeeTimeCourse, \<open>cat_\<close> TeeTimeCategory, \<open>sp_\<close> Space,
  \<open>tt_\<close> TeeTime, \<open>cl_\<close> Club, \<open>c_\<close> Course.
\<close>

datatype datetime = Naive int | Aware int

record Money =
  m_amount :: "rat option"
  m_currency :: "string option"
  m_formatted :: "string option"

record TeeTimeCourse =
  tc_id :: int
  tc_uuid :: string
  tc_name :: string
  tc_club_name :: "string option"

record TeeTimeCategory =
  cat_id :: "int option"
  cat_name :: "string option"
  cat_uuid :: "string option"
  cat_description :: "string option"
  cat_color :: "string option"
  cat_is_use_same_name :: "bool option"
  cat_custom_name :: "string option"
  cat_custom_description :: "string option"
  cat_display :: "string option"
  cat_tee_time_bookable :: "bool option"

record Space =
  sp_id :: "int option"
  sp_uuid :: "string option"
  sp_name :: "string option"

record TeeTime =
  tt_id :: "int option"
  tt_uuid :: string
  tt_from_time :: "datetime option"
  tt_to_time :: "datetime option"
  tt_interval :: "int option"
  tt_available_slots :: "int option"
  tt_max_slots :: "int option"
  tt_price :: "Money option"
  tt_price_per_extra_player :: "int option"
  tt_notes :: "string option"
  tt_is_prime_time :: bool
  tt_category :: "TeeTimeCategory option"
  tt_space :: "Space option"
  tt_course :: "TeeTimeCourse option"
  tt_created_at :: "datetime option"
  tt_updated_at :: "datetime option"
  tt_players :: "int option"

text \<open>
  Of a Course the availability command reads the id, the uuid, the name and the club's
  name; its other attributes (location, flags, booking texts) are not represented.
\<close>

record Club =
  cl_id :: int
  cl_uuid :: string
  cl_name :: string
  cl_slug :: string
  cl_terms_url :: "string option"

record Course =
  c_id :: int
  c_uuid :: string
  c_club :: Club
  c_name :: string

subsection \<open>Field validation\<close>

text \<open>
  The models are pydantic classes. A value that already has the declared type (an
  \<^verbatim>\<open>int\<close> for an \<^verbatim>\<open>int\<close> field, a \<^verbatim>\<open>str\<close> for a \<^verbatim>\<open>str\<close> field, a \<^verbatim>\<open>bool\<close> for a
  \<^verbatim>\<open>bool\<close> field) is accepted as it is. What else a field accepts (a numeric string
  for an \<^verbatim>\<open>int\<close>, an ISO-8601 string or a number for a \<^verbatim>\<open>datetime\<close>, ...) is decided by
  the library's conversion table, which is a parameter of the model: each entry returns
  the converted value, or \<open>None\<close> where the library rejects the input.
\<close>

record conversions =
  v_int :: "json \<Rightarrow> int option"
  v_str :: "json \<Rightarrow> string option"
  v_bool :: "json \<Rightarrow> bool option"
  v_datetime :: "json \<Rightarrow> datetime option"
  v_decimal :: "json \<Rightarrow> rat option"

definition val_int :: "conversions \<Rightarrow> json \<Rightarrow> int option" where
  "val_int P j = (case j of JInt n \<Rightarrow> Some n | _ \<Rightarrow> v_int P j)"

definition val_str :: "conversions \<Rightarrow> json \<Rightarrow> string option" where
  "val_str P j = (case j of JStr s \<Rightarrow> Some s | _ \<Rightarrow> v_str P j)"

definition val_bool :: "conversions \<Rightarrow> json \<Rightarrow> bool option" where
  "val_bool P j = (case j of JBool b \<Rightarrow> Some b | _ \<Rightarrow> v_bool P j)"

text \<open>A field without default: missing or rejected input is a ValidationError.\<close>

definition required :: "(json \<Rightarrow> 'a option) \<Rightarrow> json option \<Rightarrow> error + 'a" where
  "required v x =
     (case x of
        None \<Rightarrow> Inl ValidationError
      | Some j \<Rightarrow> (case v j of None \<Rightarrow> Inl ValidationError | Some a \<Rightarrow> Inr a))"

text \<open>A field with a default: the default is taken, unvalidated, when the key is missing.\<close>

definition defaulted :: "(json \<Rightarrow> 'a option) \<Rightarrow> 'a \<Rightarrow> json option \<Rightarrow> error + 'a" where
  "defaulted v dflt x =
     (case x of
        None \<Rightarrow> Inr dflt
      | Some j \<Rightarrow> (case v j of None \<Rightarrow> Inl ValidationError | Some a \<Rightarrow> Inr a))"

text \<open>An \<^verbatim>\<open>Optional[T]\<close> field with a default: \<^verbatim>\<open>None\<close> is accepted as well.\<close>

definition optional :: "(json \<Rightarrow> 'a option) \<Rightarrow> 'a option \<Rightarrow> json option \<Rightarrow> error + 'a option" where
  "optional v dflt x =
     (case x of
        None \<Rightarrow> Inr dflt
      | Some JNull \<Rightarrow> Inr None
      | Some j \<Rightarrow> (case v j of None \<Rightarrow> Inl ValidationError | Some a \<Rightarrow> Inr (Some a)))"

text \<open>An optional field whose type is a model: a dictionary is validated field by field.\<close>

definition optional_model ::
  "((string \<times> json) list \<Rightarrow> error + 'a) \<Rightarrow> json option \<Rightarrow> error + 'a option" where
  "optional_model init x =
     (case x of
        None \<Rightarrow> Inr None
      | Some JNull \<Rightarrow> Inr None
      | Some (JObj kvs) \<Rightarrow> bindE (init kvs) (\<lambda>m. Inr (Some m))
      | Some _ \<Rightarrow> Inl ValidationError)"

text \<open>A field with an alias and \<^verbatim>\<open>populate_by_name\<close>: the alias is looked up first.\<close>

definition by_alias :: "(string \<times> json) list \<Rightarrow> string \<Rightarrow> string \<Rightarrow> json option" where
  "by_alias kvs alias name =
     (case map_of kvs alias of Some j \<Rightarrow> Some j | None \<Rightarrow> map_of kvs name)"

subsection \<open>Constructors\<close>

definition Money_init :: "conversions \<Rightarrow> (string \<times> json) list \<Rightarrow> error + Money" where
  "Money_init P kvs =
     bindE (optional (v_decimal P) None (map_of kvs ''amount'')) (\<lambda>a.
     bindE (optional (val_str P) None (map_of kvs ''currency'')) (\<lambda>c.
     bindE (optional (val_str P) None (map_of kvs ''formatted'')) (\<lambda>f.
       Inr \<lparr>m_amount = a, m_currency = c, m_formatted = f\<rparr>)))"

text \<open>\<^verbatim>\<open>TeeTimeCourse(id=..., uuid=..., name=..., club_name=...)\<close> on four given values.\<close>

definition TeeTimeCourse_init ::
  "conversions \<Rightarrow> json \<Rightarrow> json \<Rightarrow> json \<Rightarrow> json \<Rightarrow> error + TeeTimeCourse" where
  "TeeTimeCourse_init P i u n cn =
     bindE (required (val_int P) (Some i)) (\<lambda>i'.
     bindE (required (val_str P) (Some u)) (\<lambda>u'.
     bindE (required (val_str P) (Some n)) (\<lambda>n'.
     bindE (optional (val_str P) None (Some cn)) (\<lambda>cn'.
       Inr \<lparr>tc_id = i', tc_uuid = u', tc_name = n', tc_club_name = cn'\<rparr>))))"

definition TeeTimeCategory_init ::
  "conversions \<Rightarrow> (string \<times> json) list \<Rightarrow> error + TeeTimeCategory" where
  "TeeTimeCategory_init P kvs =
     bindE (optional (val_int P) None (map_of kvs ''id'')) (\<lambda>f1.
     bindE (optional (val_str P) None (map_of kvs ''name'')) (\<lambda>f2.
     bindE (optional (val_str P) None (map_of kvs ''uuid'')) (\<lambda>f3.
     bindE (optional (val_str P) None (map_of kvs ''description'')) (\<lambda>f4.
     bindE (optional (val_str P) None (map_of kvs ''color'')) (\<lambda>f5.
     bindE (optional (val_bool P) None (map_of kvs ''is_use_same_name'')) (\<lambda>f6.
     bindE (optional (val_str P) None (map_of kvs ''custom_name'')) (\<lambda>f7.
     bindE (optional (val_str P) None (map_of kvs ''custom_description'')) (\<lambda>f8.
     bindE (optional (val_str P) None (map_of kvs ''display'')) (\<lambda>f9.
     bindE (optional (val_bool P) None (map_of kvs ''tee_time_bookable'')) (\<lambda>f10.
       Inr \<lparr>cat_id = f1, cat_name = f2, cat_uuid = f3, cat_description = f4,
            cat_color = f5, cat_is_use_same_name = f6, cat_custom_name = f7,
            cat_custom_description = f8, cat_display = f9,
            cat_tee_time_bookable = f10\<rparr>))))))))))"

definition Space_init :: "conversions \<Rightarrow> (string \<times> json) list \<Rightarrow> error + Space" where
  "Space_init P kvs =
     bindE (optional (val_int P) None (map_of kvs ''id'')) (\<lambda>i.
     bindE (optional (val_str P) None (map_of kvs ''uuid'')) (\<lambda>u.
     bindE (optional (val_str P) None (map_of kvs ''name'')) (\<lambda>n.
       Inr \<lparr>sp_id = i, sp_uuid = u, sp_name = n\<rparr>)))"

text \<open>
  \<^verbatim>\<open>TeeTime(**item)\<close>, for an item whose \<^verbatim>\<open>course\<close> entry has been replaced by a
  TeeTimeCourse and whose \<^verbatim>\<open>price\<close> entry, when it was a dictionary, by a Money
  (\<open>money\<close>); any other \<^verbatim>\<open>price\<close> entry is validated here, where only \<^verbatim>\<open>None\<close> passes.
  Keys that name no field are ignored.
\<close>

definition TeeTime_init ::
  "conversions \<Rightarrow> (string \<times> json) list \<Rightarrow> TeeTimeCourse \<Rightarrow> Money option \<Rightarrow> error + TeeTime" where
  "TeeTime_init P kvs course_info money =
     bindE (optional (val_int P) None (map_of kvs ''id'')) (\<lambda>f1.
     bindE (required (val_str P) (map_of kvs ''uuid'')) (\<lambda>f2.
     bindE (optional (v_datetime P) None (by_alias kvs ''from'' ''from_time'')) (\<lambda>f3.
     bindE (optional (v_datetime P) None (by_alias kvs ''to'' ''to_time'')) (\<lambda>f4.
     bindE (optional (val_int P) None (map_of kvs ''interval'')) (\<lambda>f5.
     bindE (optional (val_int P) (Some 0) (map_of kvs ''available_slots'')) (\<lambda>f6.
     bindE (optional (val_int P) (Some 0) (map_of kvs ''max_slots'')) (\<lambda>f7.
     bindE (case money of
              Some m \<Rightarrow> Inr (Some m)
            | None \<Rightarrow> optional (\<lambda>j. None) None (map_of kvs ''price'')) (\<lambda>f8.
     bindE (optional (val_int P) None (map_of kvs ''price_per_extra_player'')) (\<lambda>f9.
     bindE (optional (val_str P) None (map_of kvs ''notes'')) (\<lambda>f10.
     bindE (defaulted (val_bool P) False (map_of kvs ''is_prime_time'')) (\<lambda>f11.
     bindE (optional_model (TeeTimeCategory_init P) (map_of kvs ''category'')) (\<lambda>f12.
     bindE (optional_model (Space_init P) (map_of kvs ''space'')) (\<lambda>f13.
     bindE (optional (v_datetime P) None (map_of kvs ''created_at'')) (\<lambda>f15.
     bindE (optional (v_datetime P) None (map_of kvs ''updated_at'')) (\<lambda>f16.
     bindE (optional (val_int P) None (map_of kvs ''players'')) (\<lambda>f17.
       Inr \<lparr>tt_id = f1, tt_uuid = f2, tt_from_time = f3, tt_to_time = f4,
            tt_interval = f5, tt_available_slots = f6, tt_max_slots = f7,
            tt_price = f8, tt_price_per_extra_player = f9, tt_notes = f10,
            tt_is_prime_time = f11, tt_category = f12, tt_space = f13,
            tt_course = Some course_info, tt_created_at = f15, tt_updated_at = f16,
            tt_players = f17\<rparr>))))))))))))))))"

section \<open>Response normalizer and availability aggregator (api/client.py)\<close>

text \<open>
  \<^verbatim>\<open>available_slots >= players\<close>, with \<^verbatim>\<open>players\<close> an integer: numbers compare by
  value (\<^verbatim>\<open>True\<close> is 1), anything else raises TypeError.
\<close>

fun py_ge :: "json \<Rightarrow> int \<Rightarrow> error + bool" where
  "py_ge (JInt n) players = Inr (n \<ge> players)"
| "py_ge (JBool b) players = Inr ((if b then 1 else 0) \<ge> players)"
| "py_ge (JFloat r) players = Inr (r \<ge> of_int players)"
| "py_ge _ players = Inl TypeError"

text \<open>
  Lines 192-210: the embedded course reference. The arguments are evaluated first (the
  club lookup may raise AttributeError), then validated.
\<close>

definition course_info ::
  "conversions \<Rightarrow> string \<Rightarrow> (string \<times> json) list \<Rightarrow> error + TeeTimeCourse" where
  "course_info P course_uuid kvs =
     (case map_of kvs ''course'' of
        Some (JObj c) \<Rightarrow>
          bindE (case map_of c ''club'' of
                   Some club \<Rightarrow> py_get club ''name'' (JStr [])
                 | None \<Rightarrow> Inr (JStr [])) (\<lambda>club_name.
            TeeTimeCourse_init P
              (case map_of c ''id'' of Some v \<Rightarrow> v | None \<Rightarrow> JInt 0)
              (case map_of c ''uuid'' of Some v \<Rightarrow> v | None \<Rightarrow> JStr course_uuid)
              (case map_of c ''name'' of Some v \<Rightarrow> v | None \<Rightarrow> JStr [])
              club_name)
      | _ \<Rightarrow> TeeTimeCourse_init P (JInt 0) (JStr course_uuid) (JStr []) (JStr []))"

text \<open>Lines 213-214: a \<^verbatim>\<open>price\<close> that is a dictionary becomes a Money.\<close>

definition parse_money :: "conversions \<Rightarrow> (string \<times> json) list \<Rightarrow> error + Money option" where
  "parse_money P kvs =
     (case map_of kvs ''price'' of
        Some (JObj d) \<Rightarrow> bindE (Money_init P d) (\<lambda>m. Inr (Some m))
      | _ \<Rightarrow> Inr None)"

text \<open>
  The body of the inner \<^verbatim>\<open>try\<close> (lines 188-221) for one item of the batch. The result is
  \<open>Inr (Some t)\<close> when \<open>t\<close> is appended to the output, \<open>Inr None\<close> when the item is passed
  over (too few slots, or a competition), and \<open>Inl e\<close> when \<open>e\<close> is raised, which the
  \<^verbatim>\<open>except Exception\<close> of line 222 turns into a warning and a skipped item.
  The competition check reads only the \<^verbatim>\<open>category\<close> entry, which the two assignments
  before it leave alone, so it is applied to the item as received.
\<close>

definition process_item :: "conversions \<Rightarrow> string \<Rightarrow> int \<Rightarrow> json \<Rightarrow> error + TeeTime option" where
  "process_item P course_uuid players item =
     bindE (py_get item ''available_slots'' (JInt 0)) (\<lambda>available_slots.
     bindE (py_ge available_slots players) (\<lambda>enough.
       if \<not> enough then Inr None
       else
         (case item of
            JObj kvs \<Rightarrow>
              bindE (course_info P course_uuid kvs) (\<lambda>ci.
              bindE (parse_money P kvs) (\<lambda>money.
              bindE (is_competition_time item) (\<lambda>competition.
                if \<not> competition
                then bindE (TeeTime_init P kvs ci money) (\<lambda>t. Inr (Some t))
                else Inr None)))
          | _ \<Rightarrow> Inl AttributeError)))"

text \<open>The loop over the items (line 186): what each item adds to \<^verbatim>\<open>all_tee_times\<close>.\<close>

fun parse_items :: "conversions \<Rightarrow> string \<Rightarrow> int \<Rightarrow> json list \<Rightarrow> TeeTime list" where
  "parse_items P course_uuid players [] = []"
| "parse_items P course_uuid players (item # items) =
     (case process_item P course_uuid players item of
        Inr (Some t) \<Rightarrow> t # parse_items P course_uuid players items
      | _ \<Rightarrow> parse_items P course_uuid players items)"

text \<open>
  What \<^verbatim>\<open>for item in x\<close> runs over: the elements of a list, the keys of a dictionary,
  the characters of a string; other values are not iterable.
\<close>

fun py_iter :: "json \<Rightarrow> error + json list" where
  "py_iter (JList xs) = Inr xs"
| "py_iter (JObj kvs) = Inr (map (\<lambda>kv. JStr (fst kv)) kvs)"
| "py_iter (JStr s) = Inr (map (\<lambda>c. JStr [c]) s)"
| "py_iter _ = Inl TypeError"

text \<open>Lines 179-183: the record sequence of a response payload.\<close>

fun response_items :: "json \<Rightarrow> error + json" where
  "response_items (JList xs) = Inr (JList xs)"
| "response_items data =
     bindE (py_get data ''items'' (JList [])) (\<lambda>dflt. py_get data ''hydra:member'' dflt)"

text \<open>
  What the upstream API answers to one \<^verbatim>\<open>/tee-times\<close> request: nothing (the transport
  raises an \<^verbatim>\<open>httpx.HTTPError\<close>), or a status code with a body, which is \<open>None\<close> when the
  body is not JSON. \<^verbatim>\<open>raise_for_status\<close> raises an \<^verbatim>\<open>HTTPStatusError\<close>, a subclass of
  \<^verbatim>\<open>HTTPError\<close>, for every status outside 200..299.
\<close>

datatype http_reply = NoReply | Reply nat "json option"

definition raise_for_status :: "nat \<Rightarrow> error + unit" where
  "raise_for_status status = (if 200 \<le> status \<and> status < 300 then Inr () else Inl (HTTPStatusError status))"

text \<open>The body of the outer \<^verbatim>\<open>try\<close> (lines 173-224) for one course.\<close>

definition query_course :: "conversions \<Rightarrow> int \<Rightarrow> string \<Rightarrow> http_reply \<Rightarrow> error + TeeTime list" where
  "query_course P players course_uuid reply =
     (case reply of
        NoReply \<Rightarrow> Inl HTTPError
      | Reply status body \<Rightarrow>
          bindE (raise_for_status status) (\<lambda>_.
          bindE (case body of None \<Rightarrow> Inl JSONDecodeError | Some data \<Rightarrow> Inr data) (\<lambda>data.
          bindE (response_items data) (\<lambda>items.
          bindE (py_iter items) (\<lambda>xs.
            Inr (parse_items P course_uuid players xs))))))"

text \<open>
  The two \<^verbatim>\<open>except\<close> clauses of lines 226-234 log the exception and go on to the next
  course: a course whose query raised adds nothing.
\<close>

definition course_times :: "conversions \<Rightarrow> int \<Rightarrow> string \<Rightarrow> http_reply \<Rightarrow> TeeTime list" where
  "course_times P players course_uuid reply =
     (case query_course P players course_uuid reply of Inl e \<Rightarrow> [] | Inr ts \<Rightarrow> ts)"

text \<open>
  \<^verbatim>\<open><\<close> on two sort keys (\<^verbatim>\<open>from_time\<close> values): defined between two naive and between
  two aware datetimes; \<^verbatim>\<open>None\<close> on either side, or a naive against an aware datetime,
  raises TypeError.
\<close>

fun key_lt :: "datetime option \<Rightarrow> datetime option \<Rightarrow> error + bool" where
  "key_lt (Some (Naive a)) (Some (Naive b)) = Inr (a < b)"
| "key_lt (Some (Aware a)) (Some (Aware b)) = Inr (a < b)"
| "key_lt _ _ = Inl TypeError"

text \<open>
  \<^verbatim>\<open>all_tee_times.sort(key=lambda t: t.from_time)\<close> (line 237): a stable comparison sort
  that uses only \<^verbatim>\<open><\<close> on the keys and lets the exception of a failed comparison
  through. It is modelled as a stable insertion sort. The comparisons made are not those
  of CPython's sort, but the outcome is the same: a sort of fewer than two elements
  compares nothing, and a sort of two or more has to compare every element with
  another one, and some naive key with some aware key when both kinds occur
  (\<open>py_sort_outcome\<close> below characterises the result without the algorithm).
\<close>

fun insert_sorted :: "TeeTime \<Rightarrow> TeeTime list \<Rightarrow> error + TeeTime list" where
  "insert_sorted x [] = Inr [x]"
| "insert_sorted x (y # ys) =
     bindE (key_lt (tt_from_time y) (tt_from_time x)) (\<lambda>before.
       if before then bindE (insert_sorted x ys) (\<lambda>zs. Inr (y # zs))
       else Inr (x # y # ys))"

fun py_sort :: "TeeTime list \<Rightarrow> error + TeeTime list" where
  "py_sort [] = Inr []"
| "py_sort (x # xs) = bindE (py_sort xs) (insert_sorted x)"

text \<open>
  \<^verbatim>\<open>get_available_times\<close>. \<open>http\<close> gives the upstream's answer to the request for a
  course uuid; the time window, \<^verbatim>\<open>limit\<close> and \<^verbatim>\<open>page\<close> only shape the request and are not
  represented. The result is \<open>Inl e\<close> when the call raises \<open>e\<close>.
\<close>

definition all_tee_times :: "conversions \<Rightarrow> (string \<Rightarrow> http_reply) \<Rightarrow> string list \<Rightarrow> int \<Rightarrow> TeeTime list" where
  "all_tee_times P http course_uuids players =
     concat (map (\<lambda>course_uuid. course_times P players course_uuid (http course_uuid)) course_uuids)"

definition get_available_times ::
  "conversions \<Rightarrow> (string \<Rightarrow> http_reply) \<Rightarrow> string list \<Rightarrow> int \<Rightarrow> error + TeeTime list" where
  "get_available_times P http course_uuids players =
     py_sort (all_tee_times P http course_uuids players)"

section \<open>The availability command (cli/app.py)\<close>

subsection \<open>Course selection and enrichment\<close>

text \<open>Lines 244-250: duplicates (by id) are dropped, the first occurrence stays.\<close>

fun unique_courses :: "int set \<Rightarrow> Course list \<Rightarrow> Course list" where
  "unique_courses seen [] = []"
| "unique_courses seen (course # rest) =
     (if c_id course \<notin> seen then course # unique_courses (insert (c_id course) seen) rest
      else unique_courses seen rest)"

text \<open>
  \<^verbatim>\<open>get_courses_by_criteria\<close>, given the catalogue that \<^verbatim>\<open>client.get_courses()\<close> returned.
  An option that was not given (\<^verbatim>\<open>None\<close>) is the empty list. The warnings printed for
  unmatched ids and names are not represented.
\<close>

definition get_courses_by_criteria ::
  "Course list \<Rightarrow> int list \<Rightarrow> string list \<Rightarrow> bool \<Rightarrow> Course list" where
  "get_courses_by_criteria all_golfstar_courses course_ids course_names all_courses =
     (if all_courses then all_golfstar_courses
      else
        unique_courses {}
          (concat (map (\<lambda>course_id.
                     case find (\<lambda>c. c_id c = course_id) all_golfstar_courses of
                       Some course \<Rightarrow> [course] | None \<Rightarrow> []) course_ids)
           @ concat (map (\<lambda>name_query.
                     filter (\<lambda>c. str_contains (lower name_query) (lower (c_name c)))
                       all_golfstar_courses) course_names)))"

text \<open>
  Line 563: \<^verbatim>\<open>{course.uuid: course for course in courses}\<close>; of two courses with one
  uuid the later one stays.
\<close>

definition course_map :: "Course list \<Rightarrow> string \<Rightarrow> Course option" where
  "course_map courses = map_of (rev (map (\<lambda>course. (c_uuid course, course)) courses))"

text \<open>
  Lines 575-591, for one tee time. A model instance is always true as a condition, a
  string when it is not empty; a TeeTime has no attribute \<^verbatim>\<open>_course_uuid\<close>, so the
  \<^verbatim>\<open>elif\<close> never applies.
\<close>

definition enrich :: "(string \<Rightarrow> Course option) \<Rightarrow> TeeTime \<Rightarrow> TeeTime" where
  "enrich cmap tt =
     (let course_uuid =
            (case tt_course tt of
               Some c \<Rightarrow> if tc_uuid c \<noteq> [] then Some (tc_uuid c) else None
             | None \<Rightarrow> None)
      in case course_uuid of
           Some u \<Rightarrow>
             (case cmap u of
                Some course \<Rightarrow>
                  tt\<lparr>tt_course := Some \<lparr>tc_id = c_id course, tc_uuid = c_uuid course,
                                         tc_name = c_name course,
                                         tc_club_name = Some (cl_name (c_club course))\<rparr>\<rparr>
              | None \<Rightarrow> tt)
         | None \<Rightarrow> tt)"

subsection \<open>Dates on the command line\<close>

text \<open>
  The command builds its two datetimes with \<^verbatim>\<open>datetime\<close>, \<^verbatim>\<open>dateutil\<close> and
  \<^verbatim>\<open>zoneinfo\<close>. These libraries are a parameter: \<open>'dt\<close> is the type of datetimes, \<open>'d\<close>
  that of dates. \<open>cal_parse\<close> is \<^verbatim>\<open>dateutil.parser.parse\<close> and \<open>cal_strptime\<close> is
  \<^verbatim>\<open>strptime(_, "%Y-%m-%d").date()\<close>, both \<open>None\<close> when they raise; \<open>cal_naive\<close> is
  \<^verbatim>\<open>dt.tzinfo is None\<close>; \<open>cal_stockholm\<close> is \<^verbatim>\<open>dt.replace(tzinfo=stockholm_tz)\<close>; \<open>cal_lt\<close>
  is \<^verbatim>\<open><\<close>, which raises TypeError between a naive and an aware datetime.
\<close>

datatype daytime = TimeMin | Time_23_59_59

record ('dt, 'd) calendar =
  cal_today :: 'd
  cal_date :: "'dt \<Rightarrow> 'd"
  cal_combine :: "'d \<Rightarrow> daytime \<Rightarrow> 'dt"
  cal_parse :: "string \<Rightarrow> 'dt option"
  cal_strptime :: "string \<Rightarrow> 'd option"
  cal_naive :: "'dt \<Rightarrow> bool"
  cal_stockholm :: "'dt \<Rightarrow> 'dt"
  cal_lt :: "'dt \<Rightarrow> 'dt \<Rightarrow> error + bool"

definition parse_datetime_arg ::
  "('dt, 'd) calendar \<Rightarrow> string \<Rightarrow> daytime option \<Rightarrow> error + 'dt" where
  "parse_datetime_arg cal date_str default_time =
     (case cal_parse cal date_str of
        Some dt \<Rightarrow> Inr (if cal_naive cal dt then cal_stockholm cal dt else dt)
      | None \<Rightarrow>
          (case cal_strptime cal date_str of
             Some d \<Rightarrow>
               Inr (cal_stockholm cal
                      (cal_combine cal d
                         (case default_time of Some t \<Rightarrow> t | None \<Rightarrow> TimeMin)))
           | None \<Rightarrow> Inl BadParameter))"

subsection \<open>The command\<close>

record cli_args =
  a_course_ids :: "int list"
  a_course_names :: "string list"
  a_all_courses :: bool
  a_start :: "string option"
  a_end :: "string option"
  a_players :: int

text \<open>
  What the command finds outside: the result of \<^verbatim>\<open>client.get_courses()\<close> (a catalogue, or
  the exception it raises) and the upstream's answer to each \<^verbatim>\<open>/tee-times\<close> request.
\<close>

record world =
  w_courses :: "error + Course list"
  w_tee_times :: "string \<Rightarrow> http_reply"

datatype request = GetCourses | GetTeeTimes string

datatype message =
    NoSelector
  | EndBeforeStart
  | NoCoursesFound
  | AuthorizationRequired
  | ErrorText error

text \<open>
  How the command ends: \<^verbatim>\<open>typer.Exit(code=1)\<close> after a message, an exception that nothing
  catches, the notice that no tee times were found, or the tables for a list of tee times.
\<close>

datatype outcome =
    Exit1 message
  | Raised error
  | NoTimes
  | Displayed "TeeTime list"

text \<open>
  Line 593, \<^verbatim>\<open>"401" in str(e) or "JWT" in str(e)\<close>: the text of a status error names the
  status code; the texts of the other exceptions of the model do not contain either word.
\<close>

fun mentions_401_or_JWT :: "error \<Rightarrow> bool" where
  "mentions_401_or_JWT (HTTPStatusError status) = (status = 401)"
| "mentions_401_or_JWT _ = False"

text \<open>Lines 512-521: the two datetimes of the search window.\<close>

definition start_datetime :: "('dt, 'd) calendar \<Rightarrow> cli_args \<Rightarrow> error + 'dt" where
  "start_datetime cal args =
     (case a_start args of
        None \<Rightarrow> Inr (cal_combine cal (cal_today cal) TimeMin)
      | Some s \<Rightarrow>
          if s = [] then Inr (cal_combine cal (cal_today cal) TimeMin)
          else parse_datetime_arg cal s (Some TimeMin))"

definition end_datetime :: "('dt, 'd) calendar \<Rightarrow> cli_args \<Rightarrow> 'dt \<Rightarrow> error + 'dt" where
  "end_datetime cal args start_dt =
     (case a_end args of
        None \<Rightarrow> Inr (cal_combine cal (cal_date cal start_dt) Time_23_59_59)
      | Some s \<Rightarrow>
          if s = [] then Inr (cal_combine cal (cal_date cal start_dt) Time_23_59_59)
          else parse_datetime_arg cal s (Some Time_23_59_59))"

text \<open>Lines 545-610: the part of the command that talks to the API.\<close>

definition fetch_and_enrich ::
  "conversions \<Rightarrow> world \<Rightarrow> cli_args \<Rightarrow> request list \<times> outcome" where
  "fetch_and_enrich P w args =
     (case w_courses w of
        Inl e \<Rightarrow> ([GetCourses], Exit1 (ErrorText e))
      | Inr all_golfstar_courses \<Rightarrow>
          (let courses = get_courses_by_criteria all_golfstar_courses
                           (a_course_ids args) (a_course_names args) (a_all_courses args)
           in if courses = [] then ([GetCourses], Exit1 NoCoursesFound)
              else
                (let course_uuids = map c_uuid courses;
                     requests = GetCourses # map GetTeeTimes course_uuids
                 in case get_available_times P (w_tee_times w) course_uuids (a_players args) of
                      Inl e \<Rightarrow>
                        if mentions_401_or_JWT e then (requests, Exit1 AuthorizationRequired)
                        else (requests, Exit1 (ErrorText e))
                    | Inr tee_times \<Rightarrow>
                        (let enriched = map (enrich (course_map courses)) tee_times
                         in if enriched = [] then (requests, NoTimes)
                            else (requests, Displayed enriched)))))"

text \<open>
  \<^verbatim>\<open>availability\<close>: the HTTP requests issued, in order, and how the command ends. The
  first test is \<^verbatim>\<open>not any([course_ids, course_names, all_courses])\<close>: no list with an
  element and the flag not set.
\<close>

definition availability ::
  "conversions \<Rightarrow> ('dt, 'd) calendar \<Rightarrow> world \<Rightarrow> cli_args \<Rightarrow> request list \<times> outcome" where
  "availability P cal w args =
     (if a_course_ids args = [] \<and> a_course_names args = [] \<and> \<not> a_all_courses args
      then ([], Exit1 NoSelector)
      else
        (case start_datetime cal args of
           Inl e \<Rightarrow> ([], Raised e)
         | Inr start_dt \<Rightarrow>
             (case end_datetime cal args start_dt of
                Inl e \<Rightarrow> ([], Raised e)
              | Inr end_dt \<Rightarrow>
                  (case cal_lt cal end_dt start_dt of
                     Inl e \<Rightarrow> ([], Raised e)
                   | Inr before \<Rightarrow>
                       if before then ([], Exit1 EndBeforeStart)
                       else fetch_and_enrich P w args))))"

section \<open>Instances of the library parameters\<close>

text \<open>
  The examples below run the model on concrete libraries. Timestamps are the ones the
  upstream sends, ISO-8601 in UTC with a \<^verbatim>\<open>Z\<close> suffix and whole seconds
  (\<^verbatim>\<open>2025-01-15T07:00:00Z\<close>); they are converted to the aware datetime of that instant,
  counted in microseconds from 1970-01-01T00:00:00Z. No other conversion of the table is
  needed by the examples, so \<open>iso_conversions\<close> rejects everything else.
\<close>

definition digit_val :: "char \<Rightarrow> int option" where
  "digit_val c =
     (let n = (of_char c :: int) in if 48 \<le> n \<and> n \<le> 57 then Some (n - 48) else None)"

fun digits_val :: "int \<Rightarrow> string \<Rightarrow> int option" where
  "digits_val acc [] = Some acc"
| "digits_val acc (c # cs) =
     (case digit_val c of None \<Rightarrow> None | Some d \<Rightarrow> digits_val (10 * acc + d) cs)"

definition is_leap :: "int \<Rightarrow> bool" where
  "is_leap y = (y mod 4 = 0 \<and> (y mod 100 \<noteq> 0 \<or> y mod 400 = 0))"

definition days_in_month :: "int \<Rightarrow> int \<Rightarrow> int" where
  "days_in_month y m =
     (if m = 2 then (if is_leap y then 29 else 28)
      else if m = 4 \<or> m = 6 \<or> m = 9 \<or> m = 11 then 30 else 31)"

text \<open>The number of days from 1970-01-01 to the given date of the Gregorian calendar.\<close>

definition days_from_civil :: "int \<Rightarrow> int \<Rightarrow> int \<Rightarrow> int" where
  "days_from_civil y m d =
     (let y' = (if m \<le> 2 then y - 1 else y);
          era = y' div 400;
          yoe = y' - era * 400;
          mp = (if m > 2 then m - 3 else m + 9);
          doy = (153 * mp + 2) div 5 + d - 1;
          doe = yoe * 365 + yoe div 4 - yoe div 100 + doy
      in era * 146097 + doe - 719468)"

text \<open>\<^verbatim>\<open>YYYY-MM-DD\<close> as a day number.\<close>

definition parse_date :: "string \<Rightarrow> int option" where
  "parse_date s =
     (if length s = 10 \<and> s ! 4 = CHR ''-'' \<and> s ! 7 = CHR ''-'' then
        (case (digits_val 0 (take 4 s), digits_val 0 (take 2 (drop 5 s)),
               digits_val 0 (drop 8 s)) of
           (Some y, Some m, Some d) \<Rightarrow>
             if 1 \<le> y \<and> 1 \<le> m \<and> m \<le> 12 \<and> 1 \<le> d \<and> d \<le> days_in_month y m
             then Some (days_from_civil y m d) else None
         | _ \<Rightarrow> None)
      else None)"

text \<open>\<^verbatim>\<open>HH:MM\<close> or \<^verbatim>\<open>HH:MM:SS\<close> as a number of seconds.\<close>

definition parse_clock :: "string \<Rightarrow> int option" where
  "parse_clock s =
     (if (length s = 5 \<or> length s = 8 \<and> s ! 5 = CHR '':'') \<and> s ! 2 = CHR '':'' then
        (case (digits_val 0 (take 2 s), digits_val 0 (take 2 (drop 3 s)),
               digits_val 0 (drop 6 s)) of
           (Some h, Some mi, Some sec) \<Rightarrow>
             if h < 24 \<and> mi < 60 \<and> sec < 60
             then Some (h * 3600 + mi * 60 + sec) else None
         | _ \<Rightarrow> None)
      else None)"

definition iso_z :: "json \<Rightarrow> datetime option" where
  "iso_z j =
     (case j of
        JStr s \<Rightarrow>
          if length s = 20 \<and> s ! 10 = CHR ''T'' \<and> s ! 19 = CHR ''Z'' then
            (case (parse_date (take 10 s), parse_clock (take 8 (drop 11 s))) of
               (Some d, Some c) \<Rightarrow> Some (Aware ((d * 86400 + c) * 1000000))
             | _ \<Rightarrow> None)
          else None
      | _ \<Rightarrow> None)"

definition iso_conversions :: conversions where
  "iso_conversions =
     \<lparr>v_int = (\<lambda>j. None), v_str = (\<lambda>j. None), v_bool = (\<lambda>j. None),
      v_datetime = iso_z, v_decimal = (\<lambda>j. None)\<rparr>"

text \<open>
  A calendar for the command line: a datetime is its wall-clock reading in seconds and
  whether it carries the Stockholm zone; a date is its day number. Two datetimes that
  both carry the zone, or both carry none, compare by the wall clock; a mixed pair
  raises TypeError. The parser takes \<^verbatim>\<open>YYYY-MM-DD\<close> and \<^verbatim>\<open>YYYY-MM-DD HH:MM\<close>, the two
  forms the command documents; \<open>today\<close> is the day the command runs.
\<close>

definition wall_parse :: "string \<Rightarrow> (int \<times> bool) option" where
  "wall_parse s =
     (if length s = 10 then map_option (\<lambda>d. (d * 86400, False)) (parse_date s)
      else if length s = 16 \<and> s ! 10 = CHR '' '' then
        (case (parse_date (take 10 s), parse_clock (drop 11 s)) of
           (Some d, Some c) \<Rightarrow> Some (d * 86400 + c, False)
         | _ \<Rightarrow> None)
      else None)"

definition wall_calendar :: "int \<Rightarrow> (int \<times> bool, int) calendar" where
  "wall_calendar today =
     \<lparr>cal_today = today,
      cal_date = (\<lambda>dt. fst dt div 86400),
      cal_combine = (\<lambda>d t. (d * 86400 + (case t of TimeMin \<Rightarrow> 0 | Time_23_59_59 \<Rightarrow> 86399), False)),
      cal_parse = wall_parse,
      cal_strptime = parse_date,
      cal_naive = (\<lambda>dt. \<not> snd dt),
      cal_stockholm = (\<lambda>dt. (fst dt, True)),
      cal_lt = (\<lambda>a b. if snd a = snd b then Inr (fst a < fst b) else Inl TypeError)\<rparr>"

section \<open>Notions used in the properties\<close>

text \<open>
  \<open>key_le a b\<close>: the start time \<open>a\<close> is not after \<open>b\<close>, that is, \<^verbatim>\<open>b < a\<close> evaluates to
  \<^verbatim>\<open>False\<close>. A list of tee times is non-decreasing by start time when this holds of every
  earlier and later element.
\<close>

definition key_le :: "datetime option \<Rightarrow> datetime option \<Rightarrow> bool" where
  "key_le a b = (key_lt b a = Inr False)"

definition non_decreasing :: "TeeTime list \<Rightarrow> bool" where
  "non_decreasing ts = sorted_wrt (\<lambda>a b. key_le (tt_from_time a) (tt_from_time b)) ts"

text \<open>Two start times that \<^verbatim>\<open><\<close> can compare: both naive, or both aware.\<close>

fun same_kind :: "datetime option \<Rightarrow> datetime option \<Rightarrow> bool" where
  "same_kind (Some (Naive a)) (Some (Naive b)) = True"
| "same_kind (Some (Aware a)) (Some (Aware b)) = True"
| "same_kind _ _ = False"

definition comparable :: "TeeTime list \<Rightarrow> bool" where
  "comparable ts = (\<forall>a \<in> set ts. \<forall>b \<in> set ts. same_kind (tt_from_time a) (tt_from_time b))"

text \<open>
  A transport-level failure of one course's query: no reply, a status outside 200..299,
  or a body that is not JSON.
\<close>

fun transport_failure :: "http_reply \<Rightarrow> bool" where
  "transport_failure NoReply = True"
| "transport_failure (Reply status body) = (\<not> (200 \<le> status \<and> status < 300) \<or> body = None)"

text \<open>
  The \<^verbatim>\<open>available_slots\<close> value of a record, 0 when the field is absent, and what it means
  for it to be strictly below the requested player count.
\<close>

definition slots_value :: "(string \<times> json) list \<Rightarrow> json" where
  "slots_value kvs = (case map_of kvs ''available_slots'' of Some v \<Rightarrow> v | None \<Rightarrow> JInt 0)"

fun below :: "json \<Rightarrow> int \<Rightarrow> bool" where
  "below (JInt n) players = (n < players)"
| "below (JBool b) players = ((if b then 1 else 0) < players)"
| "below (JFloat r) players = (r < of_int players)"
| "below _ players = False"

section \<open>Example data\<close>

text \<open>A record as the upstream sends it: uuid, start time, free slots, four slots in all.\<close>

definition slot :: "string \<Rightarrow> string \<Rightarrow> int \<Rightarrow> json" where
  "slot u start free =
     JObj [(''uuid'', JStr u), (''from'', JStr start), (''available_slots'', JInt free),
           (''max_slots'', JInt 4)]"

text \<open>The envelope of the spec's example, its record list under \<^verbatim>\<open>items\<close>.\<close>

definition items_envelope :: json where
  "items_envelope = JObj [(''items'', JList [slot ''t1'' ''2025-01-15T07:00:00Z'' 2])]"

text \<open>
  Two courses: A answers with a bare array, B with an envelope; the second record of A
  and the record of B start at the same time.
\<close>

definition two_courses :: "string \<Rightarrow> http_reply" where
  "two_courses u =
     (if u = ''A''
      then Reply 200 (Some (JList [slot ''a1'' ''2025-01-15T08:00:00Z'' 2,
                                   slot ''a2'' ''2025-01-15T07:00:00Z'' 2]))
      else Reply 200 (Some (JObj [(''hydra:member'',
                                   JList [slot ''b1'' ''2025-01-15T07:00:00Z'' 2])])))"

text \<open>Course A fails with a server error, course B has three bookable slots.\<close>

definition fail_and_three :: "string \<Rightarrow> http_reply" where
  "fail_and_three u =
     (if u = ''A'' then Reply 500 None
      else Reply 200 (Some (JList [slot ''b1'' ''2025-01-15T09:00:00Z'' 2,
                                   slot ''b2'' ''2025-01-15T07:00:00Z'' 3,
                                   slot ''b3'' ''2025-01-15T08:00:00Z'' 4])))"

text \<open>A batch whose second record has no \<^verbatim>\<open>from\<close> entry.\<close>

definition no_start :: "string \<Rightarrow> http_reply" where
  "no_start u =
     Reply 200 (Some (JList [slot ''t1'' ''2025-01-15T07:00:00Z'' 2,
                             JObj [(''uuid'', JStr ''t2''), (''available_slots'', JInt 2),
                                   (''max_slots'', JInt 4)]]))"

text \<open>A batch of a slot with one free place and a slot with two.\<close>

definition one_and_two :: "json list" where
  "one_and_two = [slot ''t1'' ''2025-01-15T07:00:00Z'' 1, slot ''t2'' ''2025-01-15T08:00:00Z'' 2]"

text \<open>
  A record whose category has a \<^verbatim>\<open>null\<close> description, for a given custom name; and
  the vendor's word for competition with a capital initial.
\<close>

definition null_description :: "string \<Rightarrow> json" where
  "null_description custom_name =
     JObj [(''uuid'', JStr ''t1''), (''from'', JStr ''2025-01-15T07:00:00Z''),
           (''available_slots'', JInt 4), (''max_slots'', JInt 4),
           (''category'', JObj [(''description'', JNull), (''custom_name'', JStr custom_name)])]"

definition Tavling :: string where
  "Tavling = [CHR ''T'', CHR 0xE4, CHR ''v'', CHR ''l'', CHR ''i'', CHR ''n'', CHR ''g'']"

text \<open>A catalogue of one course, a command line that selects it, and two worlds.\<close>

definition bromma :: Course where
  "bromma =
     \<lparr>c_id = 903, c_uuid = ''A'',
      c_club = \<lparr>cl_id = 275, cl_uuid = ''G'', cl_name = ''Golfstar Sverige'',
                cl_slug = ''golfstar'', cl_terms_url = None\<rparr>,
      c_name = ''Bromma''\<rparr>"

definition bromma_args :: "string \<Rightarrow> string \<Rightarrow> cli_args" where
  "bromma_args s e =
     \<lparr>a_course_ids = [903], a_course_names = [], a_all_courses = False,
      a_start = Some s, a_end = Some e, a_players = 1\<rparr>"

definition unauthorized_world :: world where
  "unauthorized_world = \<lparr>w_courses = Inr [bromma], w_tee_times = (\<lambda>u. Reply 401 None)\<rparr>"

text \<open>A tee time as the normalizer leaves it: only the uuid of its course is known.\<close>

definition partial_tee_time :: "string \<Rightarrow> TeeTime" where
  "partial_tee_time course_uuid =
     \<lparr>tt_id = None, tt_uuid = ''t1'', tt_from_time = Some (Aware 1736924400000000),
      tt_to_time = None, tt_interval = None, tt_available_slots = Some 2,
      tt_max_slots = Some 4, tt_price = None, tt_price_per_extra_player = None,
      tt_notes = None, tt_is_prime_time = False, tt_category = None, tt_space = None,
      tt_course = Some \<lparr>tc_id = 0, tc_uuid = course_uuid, tc_name = [],
                          tc_club_name = Some []\<rparr>,
      tt_created_at = None, tt_updated_at = None, tt_players = None\<rparr>"

text \<open>
  A course mapping is keyed by uuid when every course stands under its own uuid, as in
  the dictionary the command builds.
\<close>

definition keyed_by_uuid :: "(string \<Rightarrow> Course option) \<Rightarrow> bool" where
  "keyed_by_uuid cmap = (\<forall>u course. cmap u = Some course \<longrightarrow> c_uuid course = u)"

section \<open>Lemmas on the sort\<close>

lemma bindE_Inr_iff: "bindE r f = Inr z \<longleftrightarrow> (\<exists>x. r = Inr x \<and> f x = Inr z)"
  by (cases r) (simp_all add: bindE_def)

lemma bindE_Inl_iff: "bindE r f = Inl e \<longleftrightarrow> (r = Inl e \<or> (\<exists>x. r = Inr x \<and> f x = Inl e))"
  by (cases r) (simp_all add: bindE_def)

lemma key_lt_Inr_iff: "(\<exists>b. key_lt k1 k2 = Inr b) \<longleftrightarrow> same_kind k1 k2"
  by (induction k1 k2 rule: key_lt.induct) simp_all

lemma key_lt_error: "key_lt k1 k2 = Inl e \<Longrightarrow> e = TypeError"
  by (induction k1 k2 rule: key_lt.induct) simp_all

lemma key_lt_True_neq: "key_lt k1 k2 = Inr True \<Longrightarrow> k1 \<noteq> k2"
  by (induction k1 k2 rule: key_lt.induct) auto

lemma key_lt_True_le: "key_lt k1 k2 = Inr True \<Longrightarrow> key_le k1 k2"
  unfolding key_le_def by (induction k1 k2 rule: key_lt.induct) auto

lemma key_le_trans: "key_le a b \<Longrightarrow> key_le b c \<Longrightarrow> key_le a c"
  unfolding key_le_def
  by (cases a; cases b; cases c) (auto elim!: key_lt.elims)

lemma same_kind_sym: "same_kind a b \<Longrightarrow> same_kind b a"
  by (induction a b rule: same_kind.induct) simp_all

lemma same_kind_trans: "same_kind a b \<Longrightarrow> same_kind b c \<Longrightarrow> same_kind a c"
  by (cases a; cases b; cases c) (auto elim!: same_kind.elims)

lemma insert_sorted_set: "insert_sorted x ys = Inr zs \<Longrightarrow> set zs = insert x (set ys)"
  by (induction ys arbitrary: zs) (auto simp: bindE_Inr_iff split: if_splits)

lemma insert_sorted_length: "insert_sorted x ys = Inr zs \<Longrightarrow> length zs = Suc (length ys)"
  by (induction ys arbitrary: zs) (auto simp: bindE_Inr_iff split: if_splits)

lemma insert_sorted_filter:
  "insert_sorted x ys = Inr zs \<Longrightarrow>
   filter (\<lambda>t. tt_from_time t = k) zs = filter (\<lambda>t. tt_from_time t = k) (x # ys)"
proof (induction ys arbitrary: zs)
  case Nil
  then show ?case by auto
next
  case (Cons y ys)
  from Cons.prems obtain before where b: "key_lt (tt_from_time y) (tt_from_time x) = Inr before"
    and r: "(if before then bindE (insert_sorted x ys) (\<lambda>zs. Inr (y # zs)) else Inr (x # y # ys)) = Inr zs"
    by (auto simp: bindE_Inr_iff)
  show ?case
  proof (cases before)
    case False
    with r show ?thesis by auto
  next
    case True
    with r obtain zs' where z: "insert_sorted x ys = Inr zs'" "zs = y # zs'"
      by (auto simp: bindE_Inr_iff)
    from True b have "tt_from_time y \<noteq> tt_from_time x" by (auto dest: key_lt_True_neq)
    with Cons.IH[OF z(1)] z(2) show ?thesis by auto
  qed
qed

lemma insert_sorted_non_decreasing:
  "insert_sorted x ys = Inr zs \<Longrightarrow> non_decreasing ys \<Longrightarrow> non_decreasing zs"
proof (induction ys arbitrary: zs)
  case Nil
  then show ?case by (auto simp: non_decreasing_def)
next
  case (Cons y ys)
  from Cons.prems(1) obtain before where b: "key_lt (tt_from_time y) (tt_from_time x) = Inr before"
    and r: "(if before then bindE (insert_sorted x ys) (\<lambda>zs. Inr (y # zs)) else Inr (x # y # ys)) = Inr zs"
    by (auto simp: bindE_Inr_iff)
  show ?case
  proof (cases before)
    case False
    with b have xy: "key_le (tt_from_time x) (tt_from_time y)" by (simp add: key_le_def)
    from False r have "zs = x # y # ys" by simp
    with xy Cons.prems(2) show ?thesis
      by (auto simp: non_decreasing_def intro: key_le_trans)
  next
    case True
    with r obtain zs' where z: "insert_sorted x ys = Inr zs'" "zs = y # zs'"
      by (auto simp: bindE_Inr_iff)
    from True b have yx: "key_le (tt_from_time y) (tt_from_time x)" by (simp add: key_lt_True_le)
    from Cons.prems(2) have "non_decreasing ys" by (simp add: non_decreasing_def)
    from Cons.IH[OF z(1) this] have "non_decreasing zs'" .
    with yx Cons.prems(2) insert_sorted_set[OF z(1)] z(2) show ?thesis
      by (auto simp: non_decreasing_def)
  qed
qed

lemma py_sort_set: "py_sort xs = Inr ys \<Longrightarrow> set ys = set xs"
  by (induction xs arbitrary: ys) (auto simp: bindE_Inr_iff dest!: insert_sorted_set)

lemma py_sort_length: "py_sort xs = Inr ys \<Longrightarrow> length ys = length xs"
  by (induction xs arbitrary: ys) (auto simp: bindE_Inr_iff dest!: insert_sorted_length)

lemma py_sort_non_decreasing: "py_sort xs = Inr ys \<Longrightarrow> non_decreasing ys"
proof (induction xs arbitrary: ys)
  case Nil
  then show ?case by (simp add: non_decreasing_def)
next
  case (Cons x xs)
  then show ?case by (auto simp: bindE_Inr_iff intro: insert_sorted_non_decreasing)
qed

lemma py_sort_stable:
  "py_sort xs = Inr ys \<Longrightarrow>
   filter (\<lambda>t. tt_from_time t = k) ys = filter (\<lambda>t. tt_from_time t = k) xs"
proof (induction xs arbitrary: ys)
  case Nil
  then show ?case by simp
next
  case (Cons x xs)
  from Cons.prems obtain zs where z: "py_sort xs = Inr zs" "insert_sorted x zs = Inr ys"
    by (auto simp: bindE_Inr_iff)
  from insert_sorted_filter[OF z(2), of k] Cons.IH[OF z(1)] show ?case by simp
qed

lemma insert_sorted_error: "insert_sorted x ys = Inl e \<Longrightarrow> e = TypeError"
  by (induction ys) (auto simp: bindE_Inl_iff dest: key_lt_error split: if_splits)

lemma py_sort_error: "py_sort xs = Inl e \<Longrightarrow> e = TypeError"
  by (induction xs) (auto simp: bindE_Inl_iff dest: insert_sorted_error)

lemma insert_sorted_head_kind:
  "insert_sorted x (y # ys) = Inr zs \<Longrightarrow> same_kind (tt_from_time y) (tt_from_time x)"
  using key_lt_Inr_iff[of "tt_from_time y" "tt_from_time x"] by (auto simp: bindE_Inr_iff)

lemma insert_sorted_total:
  "\<forall>y \<in> set ys. same_kind (tt_from_time y) (tt_from_time x) \<Longrightarrow> \<exists>zs. insert_sorted x ys = Inr zs"
proof (induction ys)
  case Nil
  then show ?case by simp
next
  case (Cons y ys)
  then obtain b where "key_lt (tt_from_time y) (tt_from_time x) = Inr b"
    using key_lt_Inr_iff[of "tt_from_time y" "tt_from_time x"] by auto
  with Cons show ?case by (auto simp: bindE_def)
qed

lemma py_sort_comparable:
  "py_sort xs = Inr ys \<Longrightarrow> 2 \<le> length xs \<Longrightarrow> comparable xs"
proof (induction xs arbitrary: ys)
  case Nil
  then show ?case by simp
next
  case (Cons x xs)
  from Cons.prems(1) obtain zs where z: "py_sort xs = Inr zs" "insert_sorted x zs = Inr ys"
    by (auto simp: bindE_Inr_iff)
  from Cons.prems(2) have "xs \<noteq> []" by auto
  with py_sort_length[OF z(1)] obtain w ws where zs: "zs = w # ws" by (cases zs) auto
  with z(2) have wx: "same_kind (tt_from_time w) (tt_from_time x)"
    by (blast dest: insert_sorted_head_kind)
  have w_in: "w \<in> set xs" using py_sort_set[OF z(1)] zs by auto
  have all: "\<forall>a \<in> set xs. same_kind (tt_from_time a) (tt_from_time w)"
  proof (cases "2 \<le> length xs")
    case True
    from Cons.IH[OF z(1) True] w_in show ?thesis by (auto simp: comparable_def)
  next
    case False
    with \<open>xs \<noteq> []\<close> have "length xs = 1" by (cases xs) (auto simp: not_le)
    then obtain a where "xs = [a]" by (auto simp: length_Suc_conv)
    with w_in wx show ?thesis by (auto intro: same_kind_trans same_kind_sym)
  qed
  have xall: "\<forall>a \<in> set xs. same_kind (tt_from_time a) (tt_from_time x)"
    using all wx by (blast intro: same_kind_trans)
  have xx: "same_kind (tt_from_time x) (tt_from_time x)"
    using wx by (blast intro: same_kind_trans same_kind_sym)
  show ?case unfolding comparable_def
    using xall xx by (auto intro: same_kind_trans same_kind_sym)
qed

lemma comparable_py_sort: "comparable xs \<Longrightarrow> \<exists>ys. py_sort xs = Inr ys"
proof (induction xs)
  case Nil
  then show ?case by simp
next
  case (Cons x xs)
  from Cons.prems have "comparable xs" by (auto simp: comparable_def)
  with Cons.IH obtain zs where z: "py_sort xs = Inr zs" by auto
  from Cons.prems py_sort_set[OF z]
  have "\<forall>y \<in> set zs. same_kind (tt_from_time y) (tt_from_time x)" by (auto simp: comparable_def)
  from insert_sorted_total[OF this] z show ?case by (auto simp: bindE_def)
qed

lemma py_sort_outcome:
  "(\<exists>ys. py_sort xs = Inr ys) \<longleftrightarrow> length xs < 2 \<or> comparable xs"
proof
  assume "\<exists>ys. py_sort xs = Inr ys"
  then show "length xs < 2 \<or> comparable xs" using py_sort_comparable by fastforce
next
  assume a: "length xs < 2 \<or> comparable xs"
  show "\<exists>ys. py_sort xs = Inr ys"
  proof (cases "comparable xs")
    case True then show ?thesis by (rule comparable_py_sort)
  next
    case False
    with a have "length xs < 2" by simp
    then consider "xs = []" | x where "xs = [x]" by (cases xs; cases "tl xs") auto
    then show ?thesis by cases (auto simp: bindE_def)
  qed
qed

section \<open>Lemmas on evaluating the pipeline\<close>

lemmas pipeline_defs =
  get_available_times_def all_tee_times_def course_times_def query_course_def
  raise_for_status_def bindE_def process_item_def course_info_def parse_money_def
  is_competition_time_def TeeTime_init_def TeeTimeCourse_init_def optional_def required_def
  defaulted_def optional_model_def by_alias_def val_int_def val_str_def val_bool_def

lemma iso_0700: "iso_z (JStr ''2025-01-15T07:00:00Z'') = Some (Aware 1736924400000000)"
  by code_simp

lemma iso_0800: "iso_z (JStr ''2025-01-15T08:00:00Z'') = Some (Aware 1736928000000000)"
  by code_simp

lemma iso_0900: "iso_z (JStr ''2025-01-15T09:00:00Z'') = Some (Aware 1736931600000000)"
  by code_simp

lemma iso_datetime: "v_datetime iso_conversions = iso_z"
  by (simp add: iso_conversions_def)

lemmas iso_defs = iso_datetime iso_0700 iso_0800 iso_0900

lemma parse_items_append:
  "parse_items P u n (xs @ ys) = parse_items P u n xs @ parse_items P u n ys"
  by (induction xs) (auto split: sum.splits option.splits)

lemma course_times_failure: "transport_failure r \<Longrightarrow> course_times P n u r = []"
  by (cases r) (auto simp: course_times_def query_course_def raise_for_status_def bindE_def)

lemma all_tee_times_Cons:
  "all_tee_times P http (u # us) n = course_times P n u (http u) @ all_tee_times P http us n"
  by (simp add: all_tee_times_def)

lemma all_tee_times_failure:
  "transport_failure (http a) \<Longrightarrow>
   all_tee_times P http us n = all_tee_times P http (filter (\<lambda>u. u \<noteq> a) us) n"
proof (induction us)
  case Nil
  then show ?case by simp
next
  case (Cons u us)
  then show ?case
    by (cases "u = a") (simp_all add: all_tee_times_Cons course_times_failure all_tee_times_def)
qed

section \<open>Failure isolation between courses\<close>

text \<open>
  Claim C2. In a multi-course query, a transport-level failure (no reply, an HTTP error
  status, or a body that does not parse) of the query for course \<open>a\<close> makes that course
  contribute no record and leaves the records of every other course as they are: the
  collected records, and the result of \<^verbatim>\<open>get_available_times\<close>, are those of the query
  without \<open>a\<close>. So querying A and B, where A fails and B has three valid slots, returns
  exactly those three slots.
\<close>

theorem transport_failure_isolated:
  assumes "transport_failure (http a)"
  shows "all_tee_times P http course_uuids players =
           all_tee_times P http (filter (\<lambda>u. u \<noteq> a) course_uuids) players \<and>
         get_available_times P http course_uuids players =
           get_available_times P http (filter (\<lambda>u. u \<noteq> a) course_uuids) players"
  using all_tee_times_failure[where http = http and a = a, OF assms]
  by (simp add: get_available_times_def)

theorem transport_failure_isolated_witness:
  "transport_failure (fail_and_three ''A'') \<and>
   get_available_times iso_conversions fail_and_three [''A'', ''B''] 1 =
     get_available_times iso_conversions fail_and_three [''B''] 1 \<and>
   map tt_uuid (course_times iso_conversions 1 ''B'' (fail_and_three ''B'')) = [''b1'', ''b2'', ''b3''] \<and>
   (case get_available_times iso_conversions fail_and_three [''A'', ''B''] 1 of
      Inr ts \<Rightarrow> map tt_uuid ts = [''b2'', ''b3'', ''b1'']
    | Inl e \<Rightarrow> False)"
proof -
  have f: "transport_failure (fail_and_three ''A'')"
    by (simp add: fail_and_three_def)
  have b: "get_available_times iso_conversions fail_and_three [''A'', ''B''] 1 =
           get_available_times iso_conversions fail_and_three [''B''] 1"
    using transport_failure_isolated[where http = fail_and_three and a = "''A''" and P = iso_conversions
        and course_uuids = "[''A'', ''B'']" and players = 1, OF f]
    by simp
  have c: "map tt_uuid (course_times iso_conversions 1 ''B'' (fail_and_three ''B'')) = [''b1'', ''b2'', ''b3'']"
    by (simp add: pipeline_defs slot_def fail_and_three_def iso_defs)
  have e: "case get_available_times iso_conversions fail_and_three [''B''] 1 of
             Inr ts \<Rightarrow> map tt_uuid ts = [''b2'', ''b3'', ''b1''] | Inl e \<Rightarrow> False"
    by (simp add: pipeline_defs slot_def fail_and_three_def iso_defs)
  from f b c e show ?thesis by simp
qed

section \<open>Records with too few free slots\<close>

lemma py_ge_below: "below v players \<Longrightarrow> py_ge v players = Inr False"
  by (cases v) (auto split: if_splits)

text \<open>
  Claim C4. A record of a batch whose \<^verbatim>\<open>available_slots\<close> value (0 when the field is
  absent) is strictly below the requested player count is left out of the output without
  an exception being raised, and the rest of the batch is processed as if the record were
  not there.
\<close>

theorem insufficient_slots_excluded:
  assumes "below (slots_value kvs) players"
  shows "process_item P u players (JObj kvs) = Inr None \<and>
         parse_items P u players (earlier @ JObj kvs # later) =
           parse_items P u players (earlier @ later)"
proof -
  have p: "process_item P u players (JObj kvs) = Inr None"
    using py_ge_below[OF assms] by (simp add: process_item_def slots_value_def bindE_def)
  then have "parse_items P u players (JObj kvs # later) = parse_items P u players later"
    by simp
  with p show ?thesis by (simp add: parse_items_append)
qed

theorem insufficient_slots_excluded_witness:
  "below (slots_value [(''uuid'', JStr ''t1''), (''from'', JStr ''2025-01-15T07:00:00Z''),
                       (''available_slots'', JInt 1), (''max_slots'', JInt 4)]) 2 \<and>
   process_item iso_conversions ''A'' 2 (slot ''t1'' ''2025-01-15T07:00:00Z'' 1) = Inr None \<and>
   map tt_uuid (parse_items iso_conversions ''A'' 2 one_and_two) = [''t2'']"
proof -
  let ?kvs = "[(''uuid'', JStr ''t1''), (''from'', JStr ''2025-01-15T07:00:00Z''),
               (''available_slots'', JInt 1), (''max_slots'', JInt 4)]"
  have h: "below (slots_value ?kvs) 2" by (simp add: slots_value_def)
  have s: "slot ''t1'' ''2025-01-15T07:00:00Z'' 1 = JObj ?kvs" by (simp add: slot_def)
  from insufficient_slots_excluded[OF h, of iso_conversions "''A''" "[]" "[slot ''t2'' ''2025-01-15T08:00:00Z'' 2]"]
  have p: "process_item iso_conversions ''A'' 2 (JObj ?kvs) = Inr None"
    and q: "parse_items iso_conversions ''A'' 2 one_and_two =
            parse_items iso_conversions ''A'' 2 [slot ''t2'' ''2025-01-15T08:00:00Z'' 2]"
    unfolding one_and_two_def s by simp_all
  have "map tt_uuid (parse_items iso_conversions ''A'' 2 [slot ''t2'' ''2025-01-15T08:00:00Z'' 2]) = [''t2'']"
    by (simp add: pipeline_defs slot_def iso_defs)
  with h p q s show ?thesis by simp
qed

section \<open>Order of the result\<close>

text \<open>
  Claim C5. Every non-empty result of \<^verbatim>\<open>get_available_times\<close> is non-decreasing by start
  time (\<^verbatim>\<open>from_time\<close>), and the records of one start time stand in the order in which
  they arrived, course by course (the sort is stable).
\<close>

theorem get_available_times_sorted_stable:
  assumes "get_available_times P http course_uuids players = Inr ts" and "ts \<noteq> []"
  shows "non_decreasing ts \<and>
         (\<forall>k. filter (\<lambda>t. tt_from_time t = k) ts =
              filter (\<lambda>t. tt_from_time t = k) (all_tee_times P http course_uuids players))"
  using assms(1) unfolding get_available_times_def
  by (auto dest: py_sort_non_decreasing py_sort_stable)

theorem get_available_times_sorted_stable_witness:
  "\<exists>ts. get_available_times iso_conversions two_courses [''A'', ''B''] 1 = Inr ts \<and>
        map tt_uuid ts = [''a2'', ''b1'', ''a1''] \<and>
        map tt_uuid (all_tee_times iso_conversions two_courses [''A'', ''B''] 1) = [''a1'', ''a2'', ''b1''] \<and>
        non_decreasing ts \<and>
        (\<forall>k. filter (\<lambda>t. tt_from_time t = k) ts =
             filter (\<lambda>t. tt_from_time t = k) (all_tee_times iso_conversions two_courses [''A'', ''B''] 1))"
proof -
  have e: "case get_available_times iso_conversions two_courses [''A'', ''B''] 1 of
             Inr ts \<Rightarrow> map tt_uuid ts = [''a2'', ''b1'', ''a1''] | Inl e \<Rightarrow> False"
    by (simp add: pipeline_defs slot_def two_courses_def iso_defs)
  have a: "map tt_uuid (all_tee_times iso_conversions two_courses [''A'', ''B''] 1) = [''a1'', ''a2'', ''b1'']"
    by (simp add: pipeline_defs slot_def two_courses_def iso_defs)
  from e obtain ts where ts: "get_available_times iso_conversions two_courses [''A'', ''B''] 1 = Inr ts"
    "map tt_uuid ts = [''a2'', ''b1'', ''a1'']"
    by (cases "get_available_times iso_conversions two_courses [''A'', ''B''] 1") auto
  from ts(2) have "ts \<noteq> []" by auto
  from get_available_times_sorted_stable[OF ts(1) this] ts a show ?thesis by simp
qed

section \<open>A record without start time\<close>

text \<open>
  Claim C10. \<^verbatim>\<open>get_available_times\<close> is not total on batches with a missing start time:
  when two or more records survive the filters and one of them has no \<^verbatim>\<open>from\<close> entry
  (its \<^verbatim>\<open>from_time\<close> is \<^verbatim>\<open>None\<close>), the final sort compares \<^verbatim>\<open>None\<close> with another key and
  raises TypeError, which nothing in the function catches: the call fails instead of
  returning the valid records. The batch \<open>no_start\<close> is such an input.
\<close>

theorem get_available_times_missing_start_time:
  assumes "2 \<le> length (all_tee_times P http course_uuids players)"
    and "\<exists>t \<in> set (all_tee_times P http course_uuids players). tt_from_time t = None"
  shows "get_available_times P http course_uuids players = Inl TypeError"
proof (cases "get_available_times P http course_uuids players")
  case (Inl e)
  then show ?thesis unfolding get_available_times_def by (auto dest: py_sort_error)
next
  case (Inr ts)
  then have "comparable (all_tee_times P http course_uuids players)"
    unfolding get_available_times_def using assms(1) by (rule py_sort_comparable)
  with assms(2) have False by (auto simp: comparable_def)
  then show ?thesis ..
qed

theorem get_available_times_missing_start_time_witness:
  "map tt_uuid (all_tee_times iso_conversions no_start [''A''] 1) = [''t1'', ''t2''] \<and>
   map tt_from_time (all_tee_times iso_conversions no_start [''A''] 1) =
     [Some (Aware 1736924400000000), None] \<and>
   get_available_times iso_conversions no_start [''A''] 1 = Inl TypeError"
proof -
  have u: "map tt_uuid (all_tee_times iso_conversions no_start [''A''] 1) = [''t1'', ''t2'']"
    by (simp add: pipeline_defs slot_def no_start_def iso_defs)
  have a: "map tt_from_time (all_tee_times iso_conversions no_start [''A''] 1) =
           [Some (Aware 1736924400000000), None]"
    by (simp add: pipeline_defs slot_def no_start_def iso_defs)
  have l: "2 \<le> length (all_tee_times iso_conversions no_start [''A''] 1)"
    using arg_cong[OF a, of length] by simp
  have "None \<in> set (map tt_from_time (all_tee_times iso_conversions no_start [''A''] 1))"
    unfolding a by simp
  then have n: "\<exists>t \<in> set (all_tee_times iso_conversions no_start [''A''] 1). tt_from_time t = None"
    by (metis (no_types, lifting) imageE list.set_map)
  from get_available_times_missing_start_time[OF l n] u a show ?thesis by simp
qed

section \<open>Enrichment with course metadata\<close>

lemma course_map_keyed: "keyed_by_uuid (course_map courses)"
  unfolding keyed_by_uuid_def course_map_def
  by (auto dest!: map_of_SomeD)

lemma enrich_course:
  "enrich cmap tt = tt\<lparr>tt_course := tt_course (enrich cmap tt)\<rparr>"
  by (simp add: enrich_def Let_def split: option.splits)

text \<open>
  Claim C6. The enrichment step is idempotent: for every tee time and every course
  mapping from uuid to Course (each course under its own uuid, as the command builds it
  from the selected courses), applying the step twice gives the same tee time, and so
  the same \<^verbatim>\<open>TeeTime.course\<close>, as applying it once.
\<close>

theorem enrichment_idempotent:
  "(keyed_by_uuid cmap \<longrightarrow> enrich cmap (enrich cmap tt) = enrich cmap tt) \<and>
   enrich (course_map courses) (enrich (course_map courses) tt) = enrich (course_map courses) tt \<and>
   tt_course (enrich (course_map courses) (enrich (course_map courses) tt)) =
     tt_course (enrich (course_map courses) tt)"
proof -
  have g: "enrich m (enrich m t) = enrich m t" if "keyed_by_uuid m" for m t
    using that unfolding keyed_by_uuid_def enrich_def Let_def
    by (auto split: option.splits)
  from g[of cmap tt] g[OF course_map_keyed, of courses tt] show ?thesis by simp
qed

theorem enrichment_idempotent_witness:
  "keyed_by_uuid (course_map [bromma]) \<and>
   tt_course (enrich (course_map [bromma]) (partial_tee_time ''A'')) =
     Some \<lparr>tc_id = 903, tc_uuid = ''A'', tc_name = ''Bromma'',
            tc_club_name = Some ''Golfstar Sverige''\<rparr> \<and>
   enrich (course_map [bromma]) (enrich (course_map [bromma]) (partial_tee_time ''A'')) =
     enrich (course_map [bromma]) (partial_tee_time ''A'')"
proof -
  have k: "keyed_by_uuid (course_map [bromma])" by (rule course_map_keyed)
  have c: "tt_course (enrich (course_map [bromma]) (partial_tee_time ''A'')) =
     Some \<lparr>tc_id = 903, tc_uuid = ''A'', tc_name = ''Bromma'',
            tc_club_name = Some ''Golfstar Sverige''\<rparr>"
    by (simp add: enrich_def course_map_def bromma_def partial_tee_time_def)
  from enrichment_idempotent[of "course_map [bromma]" "partial_tee_time ''A''" "[bromma]"] k c
  show ?thesis by simp
qed

text \<open>
  Claim C7. A tee time whose course uuid has no entry in the mapping, or that has no
  usable course uuid (no course reference, or an empty uuid), is left exactly as it
  was; and the step changes no field of any tee time other than \<^verbatim>\<open>course\<close>.
\<close>

theorem enrichment_frame:
  "((tt_course tt = None \<or>
     (\<exists>c. tt_course tt = Some c \<and> (tc_uuid c = [] \<or> cmap (tc_uuid c) = None)))
      \<longrightarrow> enrich cmap tt = tt) \<and>
   enrich cmap tt = tt\<lparr>tt_course := tt_course (enrich cmap tt)\<rparr> \<and>
   map (enrich cmap) tts = map (\<lambda>t. t\<lparr>tt_course := tt_course (enrich cmap t)\<rparr>) tts"
proof -
  have "enrich cmap tt = tt"
    if "tt_course tt = None \<or>
        (\<exists>c. tt_course tt = Some c \<and> (tc_uuid c = [] \<or> cmap (tc_uuid c) = None))"
    using that by (auto simp: enrich_def Let_def)
  moreover have "map (enrich cmap) tts = map (\<lambda>t. t\<lparr>tt_course := tt_course (enrich cmap t)\<rparr>) tts"
    using enrich_course[of cmap] by (intro map_cong) simp_all
  ultimately show ?thesis using enrich_course[of cmap tt] by simp
qed

theorem enrichment_frame_witness:
  "course_map [bromma] ''Z'' = None \<and>
   enrich (course_map [bromma]) (partial_tee_time ''Z'') = partial_tee_time ''Z'' \<and>
   enrich (course_map [bromma]) (partial_tee_time []) = partial_tee_time [] \<and>
   enrich (course_map [bromma]) ((partial_tee_time ''A'')\<lparr>tt_course := None\<rparr>) =
     (partial_tee_time ''A'')\<lparr>tt_course := None\<rparr>"
proof -
  have z: "course_map [bromma] ''Z'' = None"
    by (simp add: course_map_def bromma_def)
  have c: "tt_course (partial_tee_time u) =
           Some \<lparr>tc_id = 0, tc_uuid = u, tc_name = [], tc_club_name = Some []\<rparr>" for u
    by (simp add: partial_tee_time_def)
  from enrichment_frame[of "partial_tee_time ''Z''" "course_map [bromma]" "[]"] z c[of "''Z''"]
  have 1: "enrich (course_map [bromma]) (partial_tee_time ''Z'') = partial_tee_time ''Z''"
    by simp
  from enrichment_frame[of "partial_tee_time []" "course_map [bromma]" "[]"] c[of "[]"]
  have 2: "enrich (course_map [bromma]) (partial_tee_time []) = partial_tee_time []"
    by simp
  from enrichment_frame[of "(partial_tee_time ''A'')\<lparr>tt_course := None\<rparr>" "course_map [bromma]" "[]"]
  have 3: "enrich (course_map [bromma]) ((partial_tee_time ''A'')\<lparr>tt_course := None\<rparr>) =
           (partial_tee_time ''A'')\<lparr>tt_course := None\<rparr>"
    by simp
  from z 1 2 3 show ?thesis by simp
qed

section \<open>Response shapes\<close>

lemma query_course_list:
  "query_course P players u (Reply 200 (Some (JList xs))) = Inr (parse_items P u players xs)"
  by (simp add: query_course_def raise_for_status_def bindE_def)

lemma response_items_envelope:
  "response_items (JObj kvs) =
     Inr (case map_of kvs ''hydra:member'' of
            Some v \<Rightarrow> v
          | None \<Rightarrow> (case map_of kvs ''items'' of Some v \<Rightarrow> v | None \<Rightarrow> JList []))"
  by (simp add: bindE_def split: option.splits)

lemma query_course_envelope:
  "query_course P players u (Reply 200 (Some (JObj kvs))) =
     bindE (py_iter (case map_of kvs ''hydra:member'' of
                       Some v \<Rightarrow> v
                     | None \<Rightarrow> (case map_of kvs ''items'' of Some v \<Rightarrow> v | None \<Rightarrow> JList [])))
       (\<lambda>xs. Inr (parse_items P u players xs))"
  by (simp add: query_course_def raise_for_status_def response_items_envelope bindE_def)

text \<open>
  Claim C8. The record sequence is taken from each of the three response shapes: a bare
  array is used as it is; an envelope gives the list under \<^verbatim>\<open>hydra:member\<close> or, when
  that key is absent, under \<^verbatim>\<open>items\<close>; an envelope with neither key gives no record.
  So the response \<^verbatim>\<open>{"items": [{"uuid": "t1", "from": "2025-01-15T07:00:00Z",
  "available_slots": 2, "max_slots": 4}]}\<close> yields exactly one tee time, with uuid
  \<^verbatim>\<open>t1\<close>, for a player count of at most 2 (given that the library converts the
  timestamp to a datetime \<open>d\<close>).
\<close>

theorem response_shapes:
  "query_course P players u (Reply 200 (Some (JList xs))) = Inr (parse_items P u players xs) \<and>
   (map_of kvs ''hydra:member'' = Some (JList xs) \<longrightarrow>
      query_course P players u (Reply 200 (Some (JObj kvs))) = Inr (parse_items P u players xs)) \<and>
   (map_of kvs ''hydra:member'' = None \<and> map_of kvs ''items'' = Some (JList xs) \<longrightarrow>
      query_course P players u (Reply 200 (Some (JObj kvs))) = Inr (parse_items P u players xs)) \<and>
   (map_of kvs ''hydra:member'' = None \<and> map_of kvs ''items'' = None \<longrightarrow>
      query_course P players u (Reply 200 (Some (JObj kvs))) = Inr []) \<and>
   (v_datetime P (JStr ''2025-01-15T07:00:00Z'') = Some d \<and> players \<le> 2 \<longrightarrow>
      (\<exists>t. get_available_times P (\<lambda>c. Reply 200 (Some items_envelope)) [u] players = Inr [t] \<and>
           tt_uuid t = ''t1'' \<and> tt_from_time t = Some d))"
proof -
  have ex: "\<exists>t. get_available_times P (\<lambda>c. Reply 200 (Some items_envelope)) [u] players = Inr [t] \<and>
           tt_uuid t = ''t1'' \<and> tt_from_time t = Some d"
    if "v_datetime P (JStr ''2025-01-15T07:00:00Z'') = Some d" "players \<le> 2"
    using that by (simp add: pipeline_defs items_envelope_def slot_def)
  show ?thesis
    using ex by (simp add: query_course_list query_course_envelope bindE_def)
qed

theorem response_shapes_witness:
  "v_datetime iso_conversions (JStr ''2025-01-15T07:00:00Z'') = Some (Aware 1736924400000000) \<and>
   map_of [(''items'', JList [slot ''t1'' ''2025-01-15T07:00:00Z'' 2])] ''hydra:member'' = None \<and>
   map tt_uuid (parse_items iso_conversions ''A'' 2 [slot ''t1'' ''2025-01-15T07:00:00Z'' 2]) = [''t1''] \<and>
   query_course iso_conversions 2 ''A'' (Reply 200 (Some items_envelope)) =
     Inr (parse_items iso_conversions ''A'' 2 [slot ''t1'' ''2025-01-15T07:00:00Z'' 2]) \<and>
   query_course iso_conversions 2 ''A''
       (Reply 200 (Some (JObj [(''hydra:member'', JList [slot ''t1'' ''2025-01-15T07:00:00Z'' 2])]))) =
     Inr (parse_items iso_conversions ''A'' 2 [slot ''t1'' ''2025-01-15T07:00:00Z'' 2]) \<and>
   query_course iso_conversions 2 ''A'' (Reply 200 (Some (JObj [(''total'', JInt 0)]))) = Inr [] \<and>
   (\<exists>t. get_available_times iso_conversions (\<lambda>c. Reply 200 (Some items_envelope)) [''A''] 2 = Inr [t] \<and>
        tt_uuid t = ''t1'' \<and> tt_from_time t = Some (Aware 1736924400000000))"
proof -
  let ?xs = "[slot ''t1'' ''2025-01-15T07:00:00Z'' 2]"
  have d: "v_datetime iso_conversions (JStr ''2025-01-15T07:00:00Z'') = Some (Aware 1736924400000000)"
    by (simp add: iso_defs)
  have p: "map tt_uuid (parse_items iso_conversions ''A'' 2 ?xs) = [''t1'']"
    by (simp add: pipeline_defs slot_def iso_defs)
  note s = response_shapes[of iso_conversions 2 "''A''" ?xs _ "Aware 1736924400000000"]
  from s[of "[(''items'', JList ?xs)]"]
  have i: "query_course iso_conversions 2 ''A'' (Reply 200 (Some items_envelope)) =
           Inr (parse_items iso_conversions ''A'' 2 ?xs)"
    and e: "\<exists>t. get_available_times iso_conversions (\<lambda>c. Reply 200 (Some items_envelope)) [''A''] 2 = Inr [t] \<and>
        tt_uuid t = ''t1'' \<and> tt_from_time t = Some (Aware 1736924400000000)"
    using d by (simp_all add: items_envelope_def)
  from s[of "[(''hydra:member'', JList ?xs)]"]
  have h: "query_course iso_conversions 2 ''A''
       (Reply 200 (Some (JObj [(''hydra:member'', JList ?xs)]))) =
     Inr (parse_items iso_conversions ''A'' 2 ?xs)"
    by simp
  from s[of "[(''total'', JInt 0)]"]
  have n: "query_course iso_conversions 2 ''A'' (Reply 200 (Some (JObj [(''total'', JInt 0)]))) = Inr []"
    by simp
  from d p i e h n show ?thesis by simp
qed

section \<open>Validation of the search window\<close>

text \<open>
  Claim C9. When the end of the search window is strictly before its start, the
  command rejects the input with exit code 1 (for the window, or for a missing course
  selector, which is tested first) and has issued no HTTP request.
\<close>

theorem end_before_start_rejected:
  assumes "start_datetime cal args = Inr start_dt"
    and "end_datetime cal args start_dt = Inr end_dt"
    and "cal_lt cal end_dt start_dt = Inr True"
  shows "fst (availability P cal w args) = [] \<and>
         (snd (availability P cal w args) = Exit1 EndBeforeStart \<or>
          snd (availability P cal w args) = Exit1 NoSelector)"
  using assms by (simp add: availability_def)

lemma wall_0115: "wall_parse ''2025-01-15'' = Some (1736899200, False)"
  by code_simp

lemma wall_0114: "wall_parse ''2025-01-14'' = Some (1736812800, False)"
  by code_simp

lemma wall_0116: "wall_parse ''2025-01-16'' = Some (1736985600, False)"
  by code_simp

lemmas wall_defs = wall_calendar_def start_datetime_def end_datetime_def parse_datetime_arg_def
  bromma_args_def wall_0114 wall_0115 wall_0116

theorem end_before_start_rejected_witness:
  "start_datetime (wall_calendar 20103) (bromma_args ''2025-01-15'' ''2025-01-14'') =
     Inr (1736899200, True) \<and>
   end_datetime (wall_calendar 20103) (bromma_args ''2025-01-15'' ''2025-01-14'') (1736899200, True) =
     Inr (1736812800, True) \<and>
   availability iso_conversions (wall_calendar 20103) unauthorized_world
     (bromma_args ''2025-01-15'' ''2025-01-14'') = ([], Exit1 EndBeforeStart)"
proof -
  let ?cal = "wall_calendar 20103 :: (int \<times> bool, int) calendar"
  let ?args = "bromma_args ''2025-01-15'' ''2025-01-14''"
  have s: "start_datetime ?cal ?args = Inr (1736899200, True)"
    by (simp add: wall_defs)
  have e: "end_datetime ?cal ?args (1736899200, True) = Inr (1736812800, True)"
    by (simp add: wall_defs)
  have l: "cal_lt ?cal (1736812800, True) (1736899200, True) = Inr True"
    by (simp add: wall_calendar_def)
  have n: "snd (availability iso_conversions ?cal unauthorized_world ?args) \<noteq> Exit1 NoSelector"
    using s e l by (simp add: availability_def bromma_args_def)
  from end_before_start_rejected[OF s e l, of iso_conversions unauthorized_world] n s e
  show ?thesis by (simp add: prod_eq_iff)
qed

section \<open>Authorization failures\<close>

lemma course_times_unauthorized: "course_times P n u (Reply 401 body) = []"
  by (simp add: course_times_failure)

lemma get_available_times_raises_only_TypeError:
  "get_available_times P http us n = Inl e \<Longrightarrow> e = TypeError"
  unfolding get_available_times_def by (rule py_sort_error)

lemma availability_never_reports_authorization:
  "snd (availability P cal w args) \<noteq> Exit1 AuthorizationRequired"
  by (auto simp: availability_def fetch_and_enrich_def Let_def
      split: sum.splits if_splits dest: get_available_times_raises_only_TypeError)

text \<open>
  Claim C1 says that a 401 answer to one course's \<^verbatim>\<open>/tee-times\<close> request surfaces as an
  authorization error. The code does otherwise: \<^verbatim>\<open>raise_for_status\<close> raises inside the
  \<^verbatim>\<open>try\<close> of \<^verbatim>\<open>get_available_times\<close>, whose \<^verbatim>\<open>except httpx.HTTPError\<close> logs it and goes on,
  so the course adds nothing and the call returns normally; the handler of the command
  that prints the authorization notice (line 593) is never reached. At a catalogue of
  one course whose query is answered with 401, \<^verbatim>\<open>get_available_times\<close> returns the
  empty list and the command reports that no tee times were found.
\<close>

theorem unauthorized_reply_is_skipped:
  "get_available_times iso_conversions (\<lambda>u. Reply 401 None) [''A''] 1 = Inr [] \<and>
   availability iso_conversions (wall_calendar 20103) unauthorized_world
     (bromma_args ''2025-01-15'' ''2025-01-16'') = ([GetCourses, GetTeeTimes ''A''], NoTimes)"
  by (simp add: availability_def fetch_and_enrich_def wall_defs unauthorized_world_def
      get_courses_by_criteria_def bromma_def get_available_times_def all_tee_times_def
      course_times_unauthorized)

section \<open>Competition filter\<close>

lemma is_competition_time_no_category:
  "map_of kvs ''category'' = None \<Longrightarrow> is_competition_time (JObj kvs) = Inr False"
  by (simp add: is_competition_time_def bindE_def)

lemma is_competition_time_empty_category:
  "map_of kvs ''category'' = Some c \<Longrightarrow> \<not> truthy c \<Longrightarrow> is_competition_time (JObj kvs) = Inr False"
  by (simp add: is_competition_time_def bindE_def)

lemma is_competition_time_strings:
  assumes "map_of kvs ''category'' = Some (JObj cat)" and "cat \<noteq> []"
    and "map_of cat ''description'' = None \<or> map_of cat ''description'' = Some (JStr d)"
    and "map_of cat ''custom_name'' = None \<or> map_of cat ''custom_name'' = Some (JStr c)"
  shows "is_competition_time (JObj kvs) =
           Inr (str_contains tavling
                  (lower (case map_of cat ''description'' of Some (JStr s) \<Rightarrow> s | _ \<Rightarrow> [])) \<or>
                str_contains tavling
                  (lower (case map_of cat ''custom_name'' of Some (JStr s) \<Rightarrow> s | _ \<Rightarrow> [])))"
  using assms by (auto simp: is_competition_time_def bindE_def lower_def)

lemma is_competition_time_null_entry:
  assumes "map_of kvs ''category'' = Some (JObj cat)" and "cat \<noteq> []"
    and "map_of cat ''description'' = Some JNull"
  shows "is_competition_time (JObj kvs) = Inl AttributeError"
  using assms by (simp add: is_competition_time_def bindE_def)

lemma competition_never_promoted:
  "is_competition_time item = Inr True \<Longrightarrow> process_item P u players item \<noteq> Inr (Some t)"
  by (cases item) (auto simp: process_item_def bindE_def split: sum.splits if_splits)

lemma lower_Tavling: "lower Tavling = tavling"
  by code_simp

text \<open>
  Claim C3 says that \<^verbatim>\<open>is_competition_time\<close> returns true exactly when the description
  or the custom name of the category contains the marker. The code does so when both
  entries are strings or absent (\<open>is_competition_time_strings\<close>), and a competition is
  never promoted (\<open>competition_never_promoted\<close>); but on a category whose description is
  \<^verbatim>\<open>null\<close> it calls \<^verbatim>\<open>None.lower()\<close> and raises AttributeError, also when the custom name
  is the marker. In the aggregator the exception drops the record, a bookable one
  (custom name \<^verbatim>\<open>Greenfee\<close>) included.
\<close>

theorem is_competition_time_null_description:
  "is_competition_time (null_description Tavling) = Inl AttributeError \<and>
   process_item iso_conversions ''A'' 1 (null_description ''Greenfee'') = Inl AttributeError"
  by (simp add: pipeline_defs null_description_def)

end
